theory Spec2Isabelle
  imports Complex_Main "HOL-Library.Word"
begin

section \<open>Values of type float64 and their comparisons\<close>

text \<open>
  The payload of a Number is a Go \<open>float64\<close>. The methods of \<open>number.go\<close> use only
  the comparison operators on it, so a \<open>float64\<close> is modelled by what those operators see:
  not-a-number, the two infinities, or a finite value (the two zeros are one \<open>Finite 0\<close>,
  which \<open>==\<close> and the orderings do not tell apart). Every float64 is one of these values;
  not every real is a float64, so a statement over all \<open>float64\<close> here covers the machine
  values in particular.
\<close>

datatype float64 = NaN | NegInf | Finite real | PosInf

text \<open>Go's \<open>x == y\<close>: false as soon as one side is NaN.\<close>

fun f64_eq :: "float64 \<Rightarrow> float64 \<Rightarrow> bool" where
  "f64_eq NaN b = False"
| "f64_eq a NaN = False"
| "f64_eq a b = (a = b)"

text \<open>Go's \<open>x != y\<close> is the negation of \<open>x == y\<close> (true when one side is NaN).\<close>

definition f64_ne :: "float64 \<Rightarrow> float64 \<Rightarrow> bool" where
  "f64_ne a b = (\<not> f64_eq a b)"

text \<open>Go's \<open>x < y\<close>: false as soon as one side is NaN.\<close>

fun f64_lt :: "float64 \<Rightarrow> float64 \<Rightarrow> bool" where
  "f64_lt NaN b = False"
| "f64_lt a NaN = False"
| "f64_lt NegInf b = (b \<noteq> NegInf)"
| "f64_lt (Finite x) (Finite y) = (x < y)"
| "f64_lt (Finite x) b = (b = PosInf)"
| "f64_lt PosInf b = False"

definition f64_le :: "float64 \<Rightarrow> float64 \<Rightarrow> bool" where
  "f64_le a b = (f64_lt a b \<or> f64_eq a b)"

definition f64_gt :: "float64 \<Rightarrow> float64 \<Rightarrow> bool" where
  "f64_gt a b = f64_lt b a"

definition f64_ge :: "float64 \<Rightarrow> float64 \<Rightarrow> bool" where
  "f64_ge a b = f64_le b a"

section \<open>Reporter and chain\<close>

text \<open>
  \<open>Reporter\<close> is an interface with the one method \<open>Errorf(message, args...)\<close>. A reporter
  is modelled by its identity, and its effect by a trace: the list of all \<open>Errorf\<close> calls
  made so far, oldest first. A call appends one entry and returns (a reporter that ends
  the test instead leaves the trace and the wrapper as they are after that entry).
\<close>

datatype Reporter = Reporter nat

datatype arg = ArgFloat float64 | ArgBool bool

text \<open>
  A message is a format string with its arguments, as the methods pass them to \<open>fail\<close>,
  or the message of \<open>canonNumber\<close> about an operand that is not a number.
\<close>

datatype 'v message = Message string "arg list" | NotNumeric 'v

type_synonym 'v trace = "(Reporter \<times> 'v message) list"

definition Errorf :: "Reporter \<Rightarrow> 'v message \<Rightarrow> 'v trace \<Rightarrow> 'v trace" where
  "Errorf r m t = t @ [(r, m)]"

record chain =
  reporter :: Reporter
  failed :: bool

text \<open>
  Modelled from the spec: the type \<open>chain\<close> with \<open>makeChain\<close> and \<open>fail\<close>, which
  the sources use and do not define. The spec gives a chain the fields
  \<open>{reporter, failed}\<close> and lets a constructor make it from a reporter in the state ok.
  \<open>fail\<close> marks the chain failed and invokes the reporter; it is idempotent in effect,
  and once failed a chain suppresses all further reporting from itself: on a chain that
  has already failed \<open>fail\<close> returns without a report. The package documentation says
  the same of the methods (all checks on an instance marked as failed are ignored), and
  as no method tests the chain itself, \<open>fail\<close> is where that is done.
\<close>

definition makeChain :: "Reporter \<Rightarrow> chain" where
  "makeChain r = \<lparr>reporter = r, failed = False\<rparr>"

definition fail :: "chain \<Rightarrow> 'v message \<Rightarrow> 'v trace \<Rightarrow> chain \<times> 'v trace" where
  "fail c m t =
     (if failed c then (c, t)
      else (c\<lparr>failed := True\<rparr>, Errorf (reporter c) m t))"

text \<open>
  Modelled from the spec: \<open>canonNumber(chain, raw) -> (float64, ok)\<close>, which the sources
  call and do not define. It accepts any numeric scalar and converts it to float64; on a
  non-numeric input it fails the chain with a descriptive message (\<open>NotNumeric\<close> of
  the operand) and returns \<open>ok = false\<close>. The operand has Go type \<open>interface{}\<close>; the
  conversion of a dynamic value to float64 is the parameter \<open>conv\<close>, which gives
  \<open>Some w\<close> for a numeric operand of float64 value \<open>w\<close> and \<open>None\<close> otherwise.
\<close>

definition canonNumber ::
  "('v \<Rightarrow> float64 option) \<Rightarrow> chain \<Rightarrow> 'v \<Rightarrow> 'v trace \<Rightarrow> float64 \<times> bool \<times> chain \<times> 'v trace" where
  "canonNumber conv c number t =
     (case conv number of
        Some f \<Rightarrow> (f, True, c, t)
      | None \<Rightarrow> (case fail c (NotNumeric number) t of (c', t') \<Rightarrow> (Finite 0, False, c', t')))"

section \<open>Number\<close>

record Number =
  Number_chain :: chain
  Number_value :: float64

definition NewNumber :: "Reporter \<Rightarrow> float64 \<Rightarrow> Number" where
  "NewNumber r v = \<lparr>Number_chain = makeChain r, Number_value = v\<rparr>"

definition Number_Raw :: "Number \<Rightarrow> float64" where
  "Number_Raw n = Number_value n"

text \<open>
  Each method takes the receiver and the trace and gives both back: the receiver is a
  pointer, \<open>canonNumber\<close> and \<open>fail\<close> work on \<open>&n.chain\<close> in place, and the method
  returns the same pointer. The seven methods differ in the comparison and the message.
\<close>

definition Number_Equal ::
  "('v \<Rightarrow> float64 option) \<Rightarrow> Number \<Rightarrow> 'v \<Rightarrow> 'v trace \<Rightarrow> Number \<times> 'v trace" where
  "Number_Equal conv n val t =
     (case canonNumber conv (Number_chain n) val t of
        (v, ok, c, t1) \<Rightarrow>
          if \<not> ok then (n\<lparr>Number_chain := c\<rparr>, t1)
          else if \<not> f64_eq (Number_value n) v then
            (case fail c (Message ''expected number == %v, but got %v''
                            [ArgFloat v, ArgFloat (Number_value n)]) t1 of
               (c2, t2) \<Rightarrow> (n\<lparr>Number_chain := c2\<rparr>, t2))
          else (n\<lparr>Number_chain := c\<rparr>, t1))"

definition Number_NotEqual ::
  "('v \<Rightarrow> float64 option) \<Rightarrow> Number \<Rightarrow> 'v \<Rightarrow> 'v trace \<Rightarrow> Number \<times> 'v trace" where
  "Number_NotEqual conv n val t =
     (case canonNumber conv (Number_chain n) val t of
        (v, ok, c, t1) \<Rightarrow>
          if \<not> ok then (n\<lparr>Number_chain := c\<rparr>, t1)
          else if \<not> f64_ne (Number_value n) v then
            (case fail c (Message ''expected number != %v, but got %v''
                            [ArgFloat v, ArgFloat (Number_value n)]) t1 of
               (c2, t2) \<Rightarrow> (n\<lparr>Number_chain := c2\<rparr>, t2))
          else (n\<lparr>Number_chain := c\<rparr>, t1))"

definition Number_Gt ::
  "('v \<Rightarrow> float64 option) \<Rightarrow> Number \<Rightarrow> 'v \<Rightarrow> 'v trace \<Rightarrow> Number \<times> 'v trace" where
  "Number_Gt conv n val t =
     (case canonNumber conv (Number_chain n) val t of
        (v, ok, c, t1) \<Rightarrow>
          if \<not> ok then (n\<lparr>Number_chain := c\<rparr>, t1)
          else if \<not> f64_gt (Number_value n) v then
            (case fail c (Message ''expected number > %v, but got %v''
                            [ArgFloat v, ArgFloat (Number_value n)]) t1 of
               (c2, t2) \<Rightarrow> (n\<lparr>Number_chain := c2\<rparr>, t2))
          else (n\<lparr>Number_chain := c\<rparr>, t1))"

definition Number_Ge ::
  "('v \<Rightarrow> float64 option) \<Rightarrow> Number \<Rightarrow> 'v \<Rightarrow> 'v trace \<Rightarrow> Number \<times> 'v trace" where
  "Number_Ge conv n val t =
     (case canonNumber conv (Number_chain n) val t of
        (v, ok, c, t1) \<Rightarrow>
          if \<not> ok then (n\<lparr>Number_chain := c\<rparr>, t1)
          else if \<not> f64_ge (Number_value n) v then
            (case fail c (Message ''expected number >= %v, but got %v''
                            [ArgFloat v, ArgFloat (Number_value n)]) t1 of
               (c2, t2) \<Rightarrow> (n\<lparr>Number_chain := c2\<rparr>, t2))
          else (n\<lparr>Number_chain := c\<rparr>, t1))"

definition Number_Lt ::
  "('v \<Rightarrow> float64 option) \<Rightarrow> Number \<Rightarrow> 'v \<Rightarrow> 'v trace \<Rightarrow> Number \<times> 'v trace" where
  "Number_Lt conv n val t =
     (case canonNumber conv (Number_chain n) val t of
        (v, ok, c, t1) \<Rightarrow>
          if \<not> ok then (n\<lparr>Number_chain := c\<rparr>, t1)
          else if \<not> f64_lt (Number_value n) v then
            (case fail c (Message ''expected number < %v, but got %v''
                            [ArgFloat v, ArgFloat (Number_value n)]) t1 of
               (c2, t2) \<Rightarrow> (n\<lparr>Number_chain := c2\<rparr>, t2))
          else (n\<lparr>Number_chain := c\<rparr>, t1))"

definition Number_Le ::
  "('v \<Rightarrow> float64 option) \<Rightarrow> Number \<Rightarrow> 'v \<Rightarrow> 'v trace \<Rightarrow> Number \<times> 'v trace" where
  "Number_Le conv n val t =
     (case canonNumber conv (Number_chain n) val t of
        (v, ok, c, t1) \<Rightarrow>
          if \<not> ok then (n\<lparr>Number_chain := c\<rparr>, t1)
          else if \<not> f64_le (Number_value n) v then
            (case fail c (Message ''expected number <= %v, but got %v''
                            [ArgFloat v, ArgFloat (Number_value n)]) t1 of
               (c2, t2) \<Rightarrow> (n\<lparr>Number_chain := c2\<rparr>, t2))
          else (n\<lparr>Number_chain := c\<rparr>, t1))"

text \<open>
  \<open>InRange\<close> converts \<open>min\<close>, returns if that failed, converts \<open>max\<close>, returns if that
  failed, and only then compares.
\<close>

definition Number_InRange ::
  "('v \<Rightarrow> float64 option) \<Rightarrow> Number \<Rightarrow> 'v \<Rightarrow> 'v \<Rightarrow> 'v trace \<Rightarrow> Number \<times> 'v trace" where
  "Number_InRange conv n mn mx t =
     (case canonNumber conv (Number_chain n) mn t of
        (a, ok, c, t1) \<Rightarrow>
          if \<not> ok then (n\<lparr>Number_chain := c\<rparr>, t1)
          else
            (case canonNumber conv c mx t1 of
               (b, ok', c', t2) \<Rightarrow>
                 if \<not> ok' then (n\<lparr>Number_chain := c'\<rparr>, t2)
                 else if \<not> (f64_ge (Number_value n) a \<and> f64_le (Number_value n) b) then
                   (case fail c' (Message ''expected number in range [%v; %v], but got %v''
                                    [ArgFloat a, ArgFloat b, ArgFloat (Number_value n)]) t2 of
                      (c2, t3) \<Rightarrow> (n\<lparr>Number_chain := c2\<rparr>, t3))
                 else (n\<lparr>Number_chain := c'\<rparr>, t2)))"

section \<open>Boolean\<close>

record Boolean =
  Boolean_chain :: chain
  Boolean_value :: bool

definition NewBoolean :: "Reporter \<Rightarrow> bool \<Rightarrow> Boolean" where
  "NewBoolean r v = \<lparr>Boolean_chain = makeChain r, Boolean_value = v\<rparr>"

definition Boolean_Raw :: "Boolean \<Rightarrow> bool" where
  "Boolean_Raw b = Boolean_value b"

definition Boolean_Equal :: "Boolean \<Rightarrow> bool \<Rightarrow> 'v trace \<Rightarrow> Boolean \<times> 'v trace" where
  "Boolean_Equal b val t =
     (if \<not> (Boolean_value b = val) then
        (case fail (Boolean_chain b) (Message ''expected boolean == %v, but got %v''
                                        [ArgBool val, ArgBool (Boolean_value b)]) t of
           (c, t') \<Rightarrow> (b\<lparr>Boolean_chain := c\<rparr>, t'))
      else (b, t))"

definition Boolean_NotEqual :: "Boolean \<Rightarrow> bool \<Rightarrow> 'v trace \<Rightarrow> Boolean \<times> 'v trace" where
  "Boolean_NotEqual b val t =
     (if \<not> (Boolean_value b \<noteq> val) then
        (case fail (Boolean_chain b) (Message ''expected boolean != %v, but got %v''
                                        [ArgBool val, ArgBool (Boolean_value b)]) t of
           (c, t') \<Rightarrow> (b\<lparr>Boolean_chain := c\<rparr>, t'))
      else (b, t))"

definition Boolean_True :: "Boolean \<Rightarrow> 'v trace \<Rightarrow> Boolean \<times> 'v trace" where
  "Boolean_True b t = Boolean_Equal b True t"

definition Boolean_False :: "Boolean \<Rightarrow> 'v trace \<Rightarrow> Boolean \<times> 'v trace" where
  "Boolean_False b t = Boolean_Equal b False t"

section \<open>Dynamic operands\<close>

text \<open>
  A few of the dynamic types an \<open>interface{}\<close> operand can hold, with their conversion to
  float64, for concrete runs: an \<open>int32\<close> (every int32 is a float64, so the conversion is
  exact), a \<open>float64\<close>, and two non-numeric kinds.
\<close>

datatype go_value = GoInt32 "32 word" | GoFloat64 float64 | GoString string | GoNil

fun go_float64 :: "go_value \<Rightarrow> float64 option" where
  "go_float64 (GoInt32 i) = Some (Finite (real_of_int (sint i)))"
| "go_float64 (GoFloat64 f) = Some f"
| "go_float64 (GoString s) = None"
| "go_float64 GoNil = None"

section \<open>Outcomes of a call, and sequences of calls\<close>

text \<open>
  What a method leaves behind when it ran \<open>chain.fail(m)\<close> on the receiver's chain and
  returned the receiver: the wrapper with that chain, and the trace (with the report, if
  the chain had not failed before).
\<close>

definition Number_after_fail :: "Number \<Rightarrow> 'v message \<Rightarrow> 'v trace \<Rightarrow> Number \<times> 'v trace" where
  "Number_after_fail n m t =
     (case fail (Number_chain n) m t of (c, t') \<Rightarrow> (n\<lparr>Number_chain := c\<rparr>, t'))"

definition Boolean_after_fail :: "Boolean \<Rightarrow> 'v message \<Rightarrow> 'v trace \<Rightarrow> Boolean \<times> 'v trace" where
  "Boolean_after_fail b m t =
     (case fail (Boolean_chain b) m t of (c, t') \<Rightarrow> (b\<lparr>Boolean_chain := c\<rparr>, t'))"

text \<open>
  A test calls the methods one after the other on the wrapper it holds (the methods
  return the receiver, so that calls chain). A call names the method and its operands.
\<close>

datatype 'v Number_call =
  Equal 'v | NotEqual 'v | Gt 'v | Ge 'v | Lt 'v | Le 'v | InRange 'v 'v

fun Number_apply ::
  "('v \<Rightarrow> float64 option) \<Rightarrow> 'v Number_call \<Rightarrow> Number \<times> 'v trace \<Rightarrow> Number \<times> 'v trace" where
  "Number_apply conv (Equal v) (n, t) = Number_Equal conv n v t"
| "Number_apply conv (NotEqual v) (n, t) = Number_NotEqual conv n v t"
| "Number_apply conv (Gt v) (n, t) = Number_Gt conv n v t"
| "Number_apply conv (Ge v) (n, t) = Number_Ge conv n v t"
| "Number_apply conv (Lt v) (n, t) = Number_Lt conv n v t"
| "Number_apply conv (Le v) (n, t) = Number_Le conv n v t"
| "Number_apply conv (InRange mn mx) (n, t) = Number_InRange conv n mn mx t"

definition Number_run ::
  "('v \<Rightarrow> float64 option) \<Rightarrow> 'v Number_call list \<Rightarrow> Number \<times> 'v trace \<Rightarrow> Number \<times> 'v trace" where
  "Number_run conv calls s = fold (Number_apply conv) calls s"

datatype Boolean_call = BEqual bool | BNotEqual bool | BTrue | BFalse

fun Boolean_apply :: "Boolean_call \<Rightarrow> Boolean \<times> 'v trace \<Rightarrow> Boolean \<times> 'v trace" where
  "Boolean_apply (BEqual v) (b, t) = Boolean_Equal b v t"
| "Boolean_apply (BNotEqual v) (b, t) = Boolean_NotEqual b v t"
| "Boolean_apply BTrue (b, t) = Boolean_True b t"
| "Boolean_apply BFalse (b, t) = Boolean_False b t"

definition Boolean_run :: "Boolean_call list \<Rightarrow> Boolean \<times> 'v trace \<Rightarrow> Boolean \<times> 'v trace" where
  "Boolean_run calls s = fold Boolean_apply calls s"

section \<open>The helpers \<open>fail\<close> and \<open>canonNumber\<close>\<close>

lemma fail_failed: "failed c \<Longrightarrow> fail c m t = (c, t)"
  by (simp add: fail_def)

lemma fail_live:
  "\<not> failed c \<Longrightarrow> fail c m t = (c\<lparr>failed := True\<rparr>, t @ [(reporter c, m)])"
  by (simp add: fail_def Errorf_def)

lemma failed_after_fail: "failed (fst (fail c m t))"
  by (simp add: fail_def)

lemma canonNumber_numeric:
  "conv v = Some w \<Longrightarrow> canonNumber conv c v t = (w, True, c, t)"
  by (simp add: canonNumber_def)

lemma canonNumber_non_numeric:
  "conv v = None \<Longrightarrow>
   canonNumber conv c v t =
     (case fail c (NotNumeric v) t of (c', t') \<Rightarrow> (Finite 0, False, c', t'))"
  by (simp add: canonNumber_def)

lemma Number_after_fail_eq:
  "Number_after_fail n m t =
     (if failed (Number_chain n) then (n, t)
      else (n\<lparr>Number_chain := (Number_chain n)\<lparr>failed := True\<rparr>\<rparr>,
            t @ [(reporter (Number_chain n), m)]))"
  by (simp add: Number_after_fail_def fail_def Errorf_def)

lemma Boolean_after_fail_eq:
  "Boolean_after_fail b m t =
     (if failed (Boolean_chain b) then (b, t)
      else (b\<lparr>Boolean_chain := (Boolean_chain b)\<lparr>failed := True\<rparr>\<rparr>,
            t @ [(reporter (Boolean_chain b), m)]))"
  by (simp add: Boolean_after_fail_def fail_def Errorf_def)

lemma Number_after_fail_failed:
  "failed (Number_chain n) \<Longrightarrow> Number_after_fail n m t = (n, t)"
  by (simp add: Number_after_fail_eq)

lemma Boolean_after_fail_failed:
  "failed (Boolean_chain b) \<Longrightarrow> Boolean_after_fail b m t = (b, t)"
  by (simp add: Boolean_after_fail_eq)

lemma Number_after_fail_same: "(Number_after_fail n m t = (n, t)) = failed (Number_chain n)"
  by (simp add: Number_after_fail_eq)

lemma Boolean_after_fail_same: "(Boolean_after_fail b m t = (b, t)) = failed (Boolean_chain b)"
  by (simp add: Boolean_after_fail_eq)

section \<open>The comparisons on finite values\<close>

lemma f64_eq_Finite: "f64_eq (Finite p) (Finite q) = (p = q)"
  by simp

lemma f64_le_Finite: "f64_le (Finite p) (Finite q) = (p \<le> q)"
  by (auto simp: f64_le_def)

lemma f64_gt_Finite: "f64_gt (Finite p) (Finite q) = (q < p)"
  by (simp add: f64_gt_def)

lemma f64_ge_Finite: "f64_ge (Finite p) (Finite q) = (q \<le> p)"
  by (simp add: f64_ge_def f64_le_Finite)

lemma f64_eq_NaN: "\<not> f64_eq a NaN"
  by (cases a) simp_all

lemma f64_lt_NaN: "\<not> f64_lt a NaN"
  by (cases a) simp_all

lemma f64_le_NaN: "\<not> f64_le NaN b" "\<not> f64_le a NaN"
  by (simp_all add: f64_le_def f64_eq_NaN f64_lt_NaN)

lemma f64_inverted_empty: "f64_lt b a \<Longrightarrow> \<not> (f64_le a x \<and> f64_le x b)"
  by (cases a; cases b; cases x) (auto simp: f64_le_def)

section \<open>Each method, operand by operand\<close>

lemma Number_Equal_numeric:
  "conv v = Some w \<Longrightarrow>
   Number_Equal conv n v t =
     (if f64_eq (Number_value n) w then (n, t)
      else Number_after_fail n (Message ''expected number == %v, but got %v''
             [ArgFloat w, ArgFloat (Number_value n)]) t)"
  by (simp add: Number_Equal_def canonNumber_numeric Number_after_fail_def)

lemma Number_Equal_non_numeric:
  "conv v = None \<Longrightarrow> Number_Equal conv n v t = Number_after_fail n (NotNumeric v) t"
  by (simp add: Number_Equal_def canonNumber_non_numeric Number_after_fail_def split: prod.split)

lemma Number_Equal_outcome:
  "Number_Equal conv n v t = (n, t) \<or> (\<exists>m. Number_Equal conv n v t = Number_after_fail n m t)"
proof (cases "conv v")
  case None
  then show ?thesis by (auto simp add: Number_Equal_non_numeric)
next
  case (Some w)
  then show ?thesis by (auto simp add: Number_Equal_numeric)
qed

lemma Number_Equal_failed:
  "failed (Number_chain n) \<Longrightarrow> Number_Equal conv n v t = (n, t)"
  using Number_Equal_outcome [of conv n v t] by (auto simp add: Number_after_fail_failed)

lemma Number_NotEqual_numeric:
  "conv v = Some w \<Longrightarrow>
   Number_NotEqual conv n v t =
     (if f64_ne (Number_value n) w then (n, t)
      else Number_after_fail n (Message ''expected number != %v, but got %v''
             [ArgFloat w, ArgFloat (Number_value n)]) t)"
  by (simp add: Number_NotEqual_def canonNumber_numeric Number_after_fail_def)

lemma Number_NotEqual_non_numeric:
  "conv v = None \<Longrightarrow> Number_NotEqual conv n v t = Number_after_fail n (NotNumeric v) t"
  by (simp add: Number_NotEqual_def canonNumber_non_numeric Number_after_fail_def split: prod.split)

lemma Number_NotEqual_outcome:
  "Number_NotEqual conv n v t = (n, t) \<or> (\<exists>m. Number_NotEqual conv n v t = Number_after_fail n m t)"
proof (cases "conv v")
  case None
  then show ?thesis by (auto simp add: Number_NotEqual_non_numeric)
next
  case (Some w)
  then show ?thesis by (auto simp add: Number_NotEqual_numeric)
qed

lemma Number_NotEqual_failed:
  "failed (Number_chain n) \<Longrightarrow> Number_NotEqual conv n v t = (n, t)"
  using Number_NotEqual_outcome [of conv n v t] by (auto simp add: Number_after_fail_failed)

lemma Number_Gt_numeric:
  "conv v = Some w \<Longrightarrow>
   Number_Gt conv n v t =
     (if f64_gt (Number_value n) w then (n, t)
      else Number_after_fail n (Message ''expected number > %v, but got %v''
             [ArgFloat w, ArgFloat (Number_value n)]) t)"
  by (simp add: Number_Gt_def canonNumber_numeric Number_after_fail_def)

lemma Number_Gt_non_numeric:
  "conv v = None \<Longrightarrow> Number_Gt conv n v t = Number_after_fail n (NotNumeric v) t"
  by (simp add: Number_Gt_def canonNumber_non_numeric Number_after_fail_def split: prod.split)

lemma Number_Gt_outcome:
  "Number_Gt conv n v t = (n, t) \<or> (\<exists>m. Number_Gt conv n v t = Number_after_fail n m t)"
proof (cases "conv v")
  case None
  then show ?thesis by (auto simp add: Number_Gt_non_numeric)
next
  case (Some w)
  then show ?thesis by (auto simp add: Number_Gt_numeric)
qed

lemma Number_Gt_failed:
  "failed (Number_chain n) \<Longrightarrow> Number_Gt conv n v t = (n, t)"
  using Number_Gt_outcome [of conv n v t] by (auto simp add: Number_after_fail_failed)

lemma Number_Ge_numeric:
  "conv v = Some w \<Longrightarrow>
   Number_Ge conv n v t =
     (if f64_ge (Number_value n) w then (n, t)
      else Number_after_fail n (Message ''expected number >= %v, but got %v''
             [ArgFloat w, ArgFloat (Number_value n)]) t)"
  by (simp add: Number_Ge_def canonNumber_numeric Number_after_fail_def)

lemma Number_Ge_non_numeric:
  "conv v = None \<Longrightarrow> Number_Ge conv n v t = Number_after_fail n (NotNumeric v) t"
  by (simp add: Number_Ge_def canonNumber_non_numeric Number_after_fail_def split: prod.split)

lemma Number_Ge_outcome:
  "Number_Ge conv n v t = (n, t) \<or> (\<exists>m. Number_Ge conv n v t = Number_after_fail n m t)"
proof (cases "conv v")
  case None
  then show ?thesis by (auto simp add: Number_Ge_non_numeric)
next
  case (Some w)
  then show ?thesis by (auto simp add: Number_Ge_numeric)
qed

lemma Number_Ge_failed:
  "failed (Number_chain n) \<Longrightarrow> Number_Ge conv n v t = (n, t)"
  using Number_Ge_outcome [of conv n v t] by (auto simp add: Number_after_fail_failed)

lemma Number_Lt_numeric:
  "conv v = Some w \<Longrightarrow>
   Number_Lt conv n v t =
     (if f64_lt (Number_value n) w then (n, t)
      else Number_after_fail n (Message ''expected number < %v, but got %v''
             [ArgFloat w, ArgFloat (Number_value n)]) t)"
  by (simp add: Number_Lt_def canonNumber_numeric Number_after_fail_def)

lemma Number_Lt_non_numeric:
  "conv v = None \<Longrightarrow> Number_Lt conv n v t = Number_after_fail n (NotNumeric v) t"
  by (simp add: Number_Lt_def canonNumber_non_numeric Number_after_fail_def split: prod.split)

lemma Number_Lt_outcome:
  "Number_Lt conv n v t = (n, t) \<or> (\<exists>m. Number_Lt conv n v t = Number_after_fail n m t)"
proof (cases "conv v")
  case None
  then show ?thesis by (auto simp add: Number_Lt_non_numeric)
next
  case (Some w)
  then show ?thesis by (auto simp add: Number_Lt_numeric)
qed

lemma Number_Lt_failed:
  "failed (Number_chain n) \<Longrightarrow> Number_Lt conv n v t = (n, t)"
  using Number_Lt_outcome [of conv n v t] by (auto simp add: Number_after_fail_failed)

lemma Number_Le_numeric:
  "conv v = Some w \<Longrightarrow>
   Number_Le conv n v t =
     (if f64_le (Number_value n) w then (n, t)
      else Number_after_fail n (Message ''expected number <= %v, but got %v''
             [ArgFloat w, ArgFloat (Number_value n)]) t)"
  by (simp add: Number_Le_def canonNumber_numeric Number_after_fail_def)

lemma Number_Le_non_numeric:
  "conv v = None \<Longrightarrow> Number_Le conv n v t = Number_after_fail n (NotNumeric v) t"
  by (simp add: Number_Le_def canonNumber_non_numeric Number_after_fail_def split: prod.split)

lemma Number_Le_outcome:
  "Number_Le conv n v t = (n, t) \<or> (\<exists>m. Number_Le conv n v t = Number_after_fail n m t)"
proof (cases "conv v")
  case None
  then show ?thesis by (auto simp add: Number_Le_non_numeric)
next
  case (Some w)
  then show ?thesis by (auto simp add: Number_Le_numeric)
qed

lemma Number_Le_failed:
  "failed (Number_chain n) \<Longrightarrow> Number_Le conv n v t = (n, t)"
  using Number_Le_outcome [of conv n v t] by (auto simp add: Number_after_fail_failed)

lemma Number_InRange_numeric:
  "conv mn = Some a \<Longrightarrow> conv mx = Some b \<Longrightarrow>
   Number_InRange conv n mn mx t =
     (if f64_ge (Number_value n) a \<and> f64_le (Number_value n) b then (n, t)
      else Number_after_fail n (Message ''expected number in range [%v; %v], but got %v''
             [ArgFloat a, ArgFloat b, ArgFloat (Number_value n)]) t)"
  by (simp add: Number_InRange_def canonNumber_numeric Number_after_fail_def)

lemma Number_InRange_min_non_numeric:
  "conv mn = None \<Longrightarrow> Number_InRange conv n mn mx t = Number_after_fail n (NotNumeric mn) t"
  by (simp add: Number_InRange_def canonNumber_non_numeric Number_after_fail_def
      split: prod.split)

lemma Number_InRange_max_non_numeric:
  "conv mn = Some a \<Longrightarrow> conv mx = None \<Longrightarrow>
   Number_InRange conv n mn mx t = Number_after_fail n (NotNumeric mx) t"
  by (simp add: Number_InRange_def canonNumber_numeric canonNumber_non_numeric
      Number_after_fail_def split: prod.split)

lemma Number_InRange_outcome:
  "Number_InRange conv n mn mx t = (n, t) \<or>
   (\<exists>m. Number_InRange conv n mn mx t = Number_after_fail n m t)"
proof (cases "conv mn")
  case None
  then show ?thesis by (auto simp add: Number_InRange_min_non_numeric)
next
  case (Some a)
  show ?thesis
  proof (cases "conv mx")
    case None
    with Some show ?thesis by (auto simp add: Number_InRange_max_non_numeric)
  next
    case (Some b)
    with \<open>conv mn = Some a\<close> show ?thesis by (auto simp add: Number_InRange_numeric)
  qed
qed

lemma Number_InRange_failed:
  "failed (Number_chain n) \<Longrightarrow> Number_InRange conv n mn mx t = (n, t)"
  using Number_InRange_outcome [of conv n mn mx t] by (auto simp add: Number_after_fail_failed)

lemma Boolean_Equal_eq:
  "Boolean_Equal b v t =
     (if Boolean_value b = v then (b, t)
      else Boolean_after_fail b (Message ''expected boolean == %v, but got %v''
             [ArgBool v, ArgBool (Boolean_value b)]) t)"
  by (simp add: Boolean_Equal_def Boolean_after_fail_def)

lemma Boolean_NotEqual_eq:
  "Boolean_NotEqual b v t =
     (if Boolean_value b \<noteq> v then (b, t)
      else Boolean_after_fail b (Message ''expected boolean != %v, but got %v''
             [ArgBool v, ArgBool (Boolean_value b)]) t)"
  by (simp add: Boolean_NotEqual_def Boolean_after_fail_def)

lemma Boolean_Equal_outcome:
  "Boolean_Equal b v t = (b, t) \<or> (\<exists>m. Boolean_Equal b v t = Boolean_after_fail b m t)"
  by (auto simp add: Boolean_Equal_eq)

lemma Boolean_NotEqual_outcome:
  "Boolean_NotEqual b v t = (b, t) \<or> (\<exists>m. Boolean_NotEqual b v t = Boolean_after_fail b m t)"
  by (auto simp add: Boolean_NotEqual_eq)

lemma Boolean_True_outcome:
  "Boolean_True b t = (b, t) \<or> (\<exists>m. Boolean_True b t = Boolean_after_fail b m t)"
  unfolding Boolean_True_def by (rule Boolean_Equal_outcome)

lemma Boolean_False_outcome:
  "Boolean_False b t = (b, t) \<or> (\<exists>m. Boolean_False b t = Boolean_after_fail b m t)"
  unfolding Boolean_False_def by (rule Boolean_Equal_outcome)

lemma Boolean_Equal_failed:
  "failed (Boolean_chain b) \<Longrightarrow> Boolean_Equal b v t = (b, t)"
  by (simp add: Boolean_Equal_eq Boolean_after_fail_failed)

lemma Boolean_NotEqual_failed:
  "failed (Boolean_chain b) \<Longrightarrow> Boolean_NotEqual b v t = (b, t)"
  by (simp add: Boolean_NotEqual_eq Boolean_after_fail_failed)

lemma Boolean_True_failed:
  "failed (Boolean_chain b) \<Longrightarrow> Boolean_True b t = (b, t)"
  by (simp add: Boolean_True_def Boolean_Equal_failed)

lemma Boolean_False_failed:
  "failed (Boolean_chain b) \<Longrightarrow> Boolean_False b t = (b, t)"
  by (simp add: Boolean_False_def Boolean_Equal_failed)

section \<open>What a call and a sequence of calls keep\<close>

lemma Number_outcome_keeps:
  "r = (n, t) \<or> (\<exists>m. r = Number_after_fail n m t) \<Longrightarrow>
   Number_value (fst r) = Number_value n \<and>
   reporter (Number_chain (fst r)) = reporter (Number_chain n)"
  by (auto simp: Number_after_fail_eq split: if_splits)

lemma Boolean_outcome_keeps:
  "r = (b, t) \<or> (\<exists>m. r = Boolean_after_fail b m t) \<Longrightarrow>
   Boolean_value (fst r) = Boolean_value b \<and>
   reporter (Boolean_chain (fst r)) = reporter (Boolean_chain b)"
  by (auto simp: Boolean_after_fail_eq split: if_splits)

lemma Number_apply_failed:
  "failed (Number_chain n) \<Longrightarrow> Number_apply conv c (n, t) = (n, t)"
  by (cases c)
    (simp_all add: Number_Equal_failed Number_NotEqual_failed Number_Gt_failed
      Number_Ge_failed Number_Lt_failed Number_Le_failed Number_InRange_failed)

lemma Boolean_apply_failed:
  "failed (Boolean_chain b) \<Longrightarrow> Boolean_apply c (b, t) = (b, t)"
  by (cases c)
    (simp_all add: Boolean_Equal_failed Boolean_NotEqual_failed Boolean_True_failed
      Boolean_False_failed)

lemma Number_run_failed:
  "failed (Number_chain n) \<Longrightarrow> Number_run conv calls (n, t) = (n, t)"
  by (induction calls) (simp_all add: Number_run_def Number_apply_failed)

lemma Boolean_run_failed:
  "failed (Boolean_chain b) \<Longrightarrow> Boolean_run calls (b, t) = (b, t)"
  by (induction calls) (simp_all add: Boolean_run_def Boolean_apply_failed)

lemma Number_apply_keeps:
  "Number_value (fst (Number_apply conv c (n, t))) = Number_value n \<and>
   reporter (Number_chain (fst (Number_apply conv c (n, t)))) = reporter (Number_chain n)"
proof (cases c)
  case (Equal v)
  show ?thesis unfolding Equal Number_apply.simps
    by (rule Number_outcome_keeps [OF Number_Equal_outcome])
next
  case (NotEqual v)
  show ?thesis unfolding NotEqual Number_apply.simps
    by (rule Number_outcome_keeps [OF Number_NotEqual_outcome])
next
  case (Gt v)
  show ?thesis unfolding Gt Number_apply.simps
    by (rule Number_outcome_keeps [OF Number_Gt_outcome])
next
  case (Ge v)
  show ?thesis unfolding Ge Number_apply.simps
    by (rule Number_outcome_keeps [OF Number_Ge_outcome])
next
  case (Lt v)
  show ?thesis unfolding Lt Number_apply.simps
    by (rule Number_outcome_keeps [OF Number_Lt_outcome])
next
  case (Le v)
  show ?thesis unfolding Le Number_apply.simps
    by (rule Number_outcome_keeps [OF Number_Le_outcome])
next
  case (InRange mn mx)
  show ?thesis unfolding InRange Number_apply.simps
    by (rule Number_outcome_keeps [OF Number_InRange_outcome])
qed

lemma Boolean_apply_keeps:
  "Boolean_value (fst (Boolean_apply c (b, t))) = Boolean_value b \<and>
   reporter (Boolean_chain (fst (Boolean_apply c (b, t)))) = reporter (Boolean_chain b)"
proof (cases c)
  case (BEqual v)
  show ?thesis unfolding BEqual Boolean_apply.simps
    by (rule Boolean_outcome_keeps [OF Boolean_Equal_outcome])
next
  case (BNotEqual v)
  show ?thesis unfolding BNotEqual Boolean_apply.simps
    by (rule Boolean_outcome_keeps [OF Boolean_NotEqual_outcome])
next
  case BTrue
  show ?thesis unfolding BTrue Boolean_apply.simps
    by (rule Boolean_outcome_keeps [OF Boolean_True_outcome])
next
  case BFalse
  show ?thesis unfolding BFalse Boolean_apply.simps
    by (rule Boolean_outcome_keeps [OF Boolean_False_outcome])
qed

lemma Number_run_keeps:
  "Number_value (fst (Number_run conv calls (n, t))) = Number_value n \<and>
   reporter (Number_chain (fst (Number_run conv calls (n, t)))) = reporter (Number_chain n)"
proof (induction calls arbitrary: n t)
  case Nil
  show ?case by (simp add: Number_run_def)
next
  case (Cons c calls)
  obtain n' t' where step: "Number_apply conv c (n, t) = (n', t')"
    by (cases "Number_apply conv c (n, t)")
  have run: "Number_run conv (c # calls) (n, t) = Number_run conv calls (n', t')"
    by (simp add: Number_run_def step)
  from Number_apply_keeps [of conv c n t] step
  have "Number_value n' = Number_value n \<and>
        reporter (Number_chain n') = reporter (Number_chain n)"
    by simp
  with Cons.IH [of n' t'] show ?case by (simp only: run)
qed

lemma Boolean_run_keeps:
  "Boolean_value (fst (Boolean_run calls (b, t))) = Boolean_value b \<and>
   reporter (Boolean_chain (fst (Boolean_run calls (b, t)))) = reporter (Boolean_chain b)"
proof (induction calls arbitrary: b t)
  case Nil
  show ?case by (simp add: Boolean_run_def)
next
  case (Cons c calls)
  obtain b' t' where step: "Boolean_apply c (b, t) = (b', t')"
    by (cases "Boolean_apply c (b, t)")
  have run: "Boolean_run (c # calls) (b, t) = Boolean_run calls (b', t')"
    by (simp add: Boolean_run_def step)
  from Boolean_apply_keeps [of c b t] step
  have "Boolean_value b' = Boolean_value b \<and>
        reporter (Boolean_chain b') = reporter (Boolean_chain b)"
    by simp
  with Cons.IH [of b' t'] show ?case by (simp only: run)
qed

lemma Number_only_failed_differs:
  fixes n n' :: Number
  assumes "Number_value n' = Number_value n"
    and "reporter (Number_chain n') = reporter (Number_chain n)"
  shows "n' = n\<lparr>Number_chain := (Number_chain n)\<lparr>failed := failed (Number_chain n')\<rparr>\<rparr>"
  using assms by (cases n; cases n'; cases "Number_chain n"; cases "Number_chain n'") simp

lemma Boolean_only_failed_differs:
  fixes b b' :: Boolean
  assumes "Boolean_value b' = Boolean_value b"
    and "reporter (Boolean_chain b') = reporter (Boolean_chain b)"
  shows "b' = b\<lparr>Boolean_chain := (Boolean_chain b)\<lparr>failed := failed (Boolean_chain b')\<rparr>\<rparr>"
  using assms by (cases b; cases b'; cases "Boolean_chain b"; cases "Boolean_chain b'") simp

section \<open>Boolean: True and False delegate to Equal\<close>

text \<open>
  C6. For every Boolean wrapper, \<open>True()\<close> is \<open>Equal(true)\<close> and \<open>False()\<close> is
  \<open>Equal(false)\<close>: the same returned wrapper (with the same chain state) and the same
  reporter calls, from every receiver and every trace.
\<close>

theorem Boolean_True_False_delegate:
  "Boolean_True b t = Boolean_Equal b True t \<and> Boolean_False b t = Boolean_Equal b False t"
  by (simp add: Boolean_True_def Boolean_False_def)

section \<open>A non-numeric operand\<close>

text \<open>
  C2. Every comparison of Number (\<open>Equal\<close>, \<open>NotEqual\<close>, \<open>Gt\<close>, \<open>Ge\<close>,
  \<open>Lt\<close>, \<open>Le\<close>, \<open>InRange\<close>), given an operand that \<open>canonNumber\<close> cannot convert
  to float64, fails the chain and returns the receiver without comparing: the outcome is
  the receiver after the one \<open>fail\<close> of \<open>canonNumber\<close>, whatever the payload is. On a
  receiver whose chain had not failed, the wrapper keeps its payload and its reporter, its
  chain is failed, and the only report is the one about the operand; on a receiver whose
  chain had failed already nothing changes. For \<open>InRange\<close> the operand may be \<open>min\<close>
  (with any \<open>max\<close>) or \<open>max\<close> (with any \<open>min\<close>; the report is then about \<open>min\<close> if
  that is not a number either).
\<close>

theorem Number_non_numeric_operand:
  assumes "conv v = None"
  shows "Number_Equal conv n v t = Number_after_fail n (NotNumeric v) t
       \<and> Number_NotEqual conv n v t = Number_after_fail n (NotNumeric v) t
       \<and> Number_Gt conv n v t = Number_after_fail n (NotNumeric v) t
       \<and> Number_Ge conv n v t = Number_after_fail n (NotNumeric v) t
       \<and> Number_Lt conv n v t = Number_after_fail n (NotNumeric v) t
       \<and> Number_Le conv n v t = Number_after_fail n (NotNumeric v) t
       \<and> Number_InRange conv n v mx t = Number_after_fail n (NotNumeric v) t
       \<and> Number_InRange conv n mn v t =
           Number_after_fail n (NotNumeric (if conv mn = None then mn else v)) t
       \<and> (\<not> failed (Number_chain n) \<longrightarrow>
           Number_after_fail n (NotNumeric v) t =
             (n\<lparr>Number_chain := (Number_chain n)\<lparr>failed := True\<rparr>\<rparr>,
              t @ [(reporter (Number_chain n), NotNumeric v)]))
       \<and> (failed (Number_chain n) \<longrightarrow> Number_after_fail n (NotNumeric v) t = (n, t))"
proof -
  have "Number_InRange conv n mn v t =
          Number_after_fail n (NotNumeric (if conv mn = None then mn else v)) t"
  proof (cases "conv mn")
    case None
    then show ?thesis by (simp add: Number_InRange_min_non_numeric)
  next
    case (Some a)
    with assms show ?thesis by (simp add: Number_InRange_max_non_numeric)
  qed
  moreover have "\<not> failed (Number_chain n) \<longrightarrow>
           Number_after_fail n (NotNumeric v) t =
             (n\<lparr>Number_chain := (Number_chain n)\<lparr>failed := True\<rparr>\<rparr>,
              t @ [(reporter (Number_chain n), NotNumeric v)])"
    by (simp add: Number_after_fail_eq)
  moreover have "failed (Number_chain n) \<longrightarrow> Number_after_fail n (NotNumeric v) t = (n, t)"
    by (simp add: Number_after_fail_failed)
  ultimately show ?thesis
    using assms
    by (simp only: Number_Equal_non_numeric Number_NotEqual_non_numeric Number_Gt_non_numeric
        Number_Ge_non_numeric Number_Lt_non_numeric Number_Le_non_numeric
        Number_InRange_min_non_numeric simp_thms)
qed

text \<open>
  A run of C2: \<open>NewNumber(r, 1).Equal("abc")\<close> and
  \<open>NewNumber(r, 1).InRange(int32(0), "abc")\<close>.
\<close>

theorem Number_non_numeric_operand_witness:
  "go_float64 (GoString ''abc'') = None
   \<and> Number_Equal go_float64 (NewNumber (Reporter 0) (Finite 1)) (GoString ''abc'') []
       = (\<lparr>Number_chain = \<lparr>reporter = Reporter 0, failed = True\<rparr>, Number_value = Finite 1\<rparr>,
          [(Reporter 0, NotNumeric (GoString ''abc''))])
   \<and> Number_InRange go_float64 (NewNumber (Reporter 0) (Finite 1)) (GoInt32 0) (GoString ''abc'') []
       = (\<lparr>Number_chain = \<lparr>reporter = Reporter 0, failed = True\<rparr>, Number_value = Finite 1\<rparr>,
          [(Reporter 0, NotNumeric (GoString ''abc''))])"
  using Number_non_numeric_operand
    [of go_float64 "GoString ''abc''" "NewNumber (Reporter 0) (Finite 1)" "[]" GoNil "GoInt32 0"]
  by (simp add: NewNumber_def makeChain_def)

section \<open>InRange\<close>

text \<open>
  C3. With numeric bounds that convert to \<open>a\<close> and \<open>b\<close>, \<open>InRange(min, max)\<close> on
  a Number with payload \<open>x\<close> passes its check if and only if \<open>a <= x\<close> and
  \<open>x <= b\<close>, both bounds included, and otherwise fails the chain. On a receiver whose
  chain has not failed, the call returns the receiver with nothing reported if and only if
  \<open>a <= x\<close> and \<open>x <= b\<close> (the orderings of the reals on finite values), and otherwise
  leaves the chain failed and one report more. Nothing checks that \<open>min <= max\<close>: with
  \<open>b < a\<close> the call fails whatever the payload is.
\<close>

theorem Number_InRange_inclusive:
  assumes "conv mn = Some a" and "conv mx = Some b"
  shows "Number_InRange conv n mn mx t =
           (if f64_le a (Number_value n) \<and> f64_le (Number_value n) b then (n, t)
            else Number_after_fail n (Message ''expected number in range [%v; %v], but got %v''
                   [ArgFloat a, ArgFloat b, ArgFloat (Number_value n)]) t)
       \<and> (\<not> failed (Number_chain n) \<longrightarrow>
           (Number_InRange conv n mn mx t = (n, t)) =
             (f64_le a (Number_value n) \<and> f64_le (Number_value n) b))
       \<and> (\<not> failed (Number_chain n) \<longrightarrow>
           (\<forall>p q r. Number_value n = Finite p \<and> a = Finite q \<and> b = Finite r \<longrightarrow>
             (Number_InRange conv n mn mx t = (n, t)) = (q \<le> p \<and> p \<le> r)))
       \<and> (\<not> failed (Number_chain n) \<and> f64_lt b a \<longrightarrow>
           Number_InRange conv n mn mx t =
             (n\<lparr>Number_chain := (Number_chain n)\<lparr>failed := True\<rparr>\<rparr>,
              t @ [(reporter (Number_chain n),
                    Message ''expected number in range [%v; %v], but got %v''
                      [ArgFloat a, ArgFloat b, ArgFloat (Number_value n)])]))
       \<and> (failed (Number_chain n) \<longrightarrow> Number_InRange conv n mn mx t = (n, t))
       \<and> (\<forall>m. Number_after_fail n m t =
             (if failed (Number_chain n) then (n, t)
              else (n\<lparr>Number_chain := (Number_chain n)\<lparr>failed := True\<rparr>\<rparr>,
                    t @ [(reporter (Number_chain n), m)])))"
proof -
  have eq: "Number_InRange conv n mn mx t =
           (if f64_le a (Number_value n) \<and> f64_le (Number_value n) b then (n, t)
            else Number_after_fail n (Message ''expected number in range [%v; %v], but got %v''
                   [ArgFloat a, ArgFloat b, ArgFloat (Number_value n)]) t)"
    using assms by (simp add: Number_InRange_numeric f64_ge_def)
  have iff: "\<not> failed (Number_chain n) \<longrightarrow>
           (Number_InRange conv n mn mx t = (n, t)) =
             (f64_le a (Number_value n) \<and> f64_le (Number_value n) b)"
    unfolding eq by (simp add: Number_after_fail_same)
  have fin: "\<not> failed (Number_chain n) \<longrightarrow>
           (\<forall>p q r. Number_value n = Finite p \<and> a = Finite q \<and> b = Finite r \<longrightarrow>
             (Number_InRange conv n mn mx t = (n, t)) = (q \<le> p \<and> p \<le> r))"
    using iff by (simp add: f64_le_Finite)
  have inv: "\<not> failed (Number_chain n) \<and> f64_lt b a \<longrightarrow>
           Number_InRange conv n mn mx t =
             (n\<lparr>Number_chain := (Number_chain n)\<lparr>failed := True\<rparr>\<rparr>,
              t @ [(reporter (Number_chain n),
                    Message ''expected number in range [%v; %v], but got %v''
                      [ArgFloat a, ArgFloat b, ArgFloat (Number_value n)])])"
    unfolding eq using f64_inverted_empty [of b a "Number_value n"]
    by (auto simp add: Number_after_fail_eq)
  have fl: "failed (Number_chain n) \<longrightarrow> Number_InRange conv n mn mx t = (n, t)"
    by (simp add: Number_InRange_failed)
  have af: "\<forall>m. Number_after_fail n m t =
             (if failed (Number_chain n) then (n, t)
              else (n\<lparr>Number_chain := (Number_chain n)\<lparr>failed := True\<rparr>\<rparr>,
                    t @ [(reporter (Number_chain n), m)]))"
    by (simp add: Number_after_fail_eq)
  from eq iff fin inv fl af show ?thesis by (intro conjI)
qed

text \<open>
  The two runs of C3: \<open>Number(10).InRange(5, 20)\<close> succeeds and
  \<open>Number(10).InRange(20, 5)\<close> fails the chain.
\<close>

theorem Number_InRange_inclusive_witness:
  "Number_InRange go_float64 (NewNumber (Reporter 0) (Finite 10)) (GoInt32 5) (GoInt32 20) []
     = (NewNumber (Reporter 0) (Finite 10), [])
   \<and> Number_InRange go_float64 (NewNumber (Reporter 0) (Finite 10)) (GoInt32 20) (GoInt32 5) []
     = (\<lparr>Number_chain = \<lparr>reporter = Reporter 0, failed = True\<rparr>, Number_value = Finite 10\<rparr>,
        [(Reporter 0, Message ''expected number in range [%v; %v], but got %v''
            [ArgFloat (Finite 20), ArgFloat (Finite 5), ArgFloat (Finite 10)])])"
  using Number_InRange_inclusive
      [of go_float64 "GoInt32 5" "Finite 5" "GoInt32 20" "Finite 20"
          "NewNumber (Reporter 0) (Finite 10)" "[]"]
    Number_InRange_inclusive
      [of go_float64 "GoInt32 20" "Finite 20" "GoInt32 5" "Finite 5"
          "NewNumber (Reporter 0) (Finite 10)" "[]"]
  by (simp add: NewNumber_def makeChain_def f64_le_Finite Number_after_fail_eq)

section \<open>Equal and NotEqual\<close>

text \<open>
  C4. With a numeric operand that converts to \<open>w\<close>, \<open>Equal\<close> on a Number with
  payload \<open>x\<close> passes its check if and only if \<open>x == w\<close> as float64 values, and
  \<open>NotEqual\<close> if and only if not, and a check that does not pass fails the chain. On a
  receiver whose chain has not failed, the call returns the receiver with nothing reported
  exactly when the check passes; on finite values that is equality of the two reals, with
  no tolerance. The outcome depends on the operand through its float64 value only, so two
  operands of different numeric types and the same value give the same outcome.
\<close>

theorem Number_Equal_NotEqual_exact:
  assumes "conv v = Some w"
  shows "Number_Equal conv n v t =
           (if f64_eq (Number_value n) w then (n, t)
            else Number_after_fail n (Message ''expected number == %v, but got %v''
                   [ArgFloat w, ArgFloat (Number_value n)]) t)
       \<and> Number_NotEqual conv n v t =
           (if \<not> f64_eq (Number_value n) w then (n, t)
            else Number_after_fail n (Message ''expected number != %v, but got %v''
                   [ArgFloat w, ArgFloat (Number_value n)]) t)
       \<and> (\<not> failed (Number_chain n) \<longrightarrow>
           (Number_Equal conv n v t = (n, t)) = f64_eq (Number_value n) w)
       \<and> (\<not> failed (Number_chain n) \<longrightarrow>
           (Number_NotEqual conv n v t = (n, t)) = (\<not> f64_eq (Number_value n) w))
       \<and> (\<not> failed (Number_chain n) \<longrightarrow>
           (\<forall>p q. Number_value n = Finite p \<and> w = Finite q \<longrightarrow>
             (Number_Equal conv n v t = (n, t)) = (p = q) \<and>
             (Number_NotEqual conv n v t = (n, t)) = (p \<noteq> q)))
       \<and> (\<forall>v'. conv v' = Some w \<longrightarrow>
             Number_Equal conv n v' t = Number_Equal conv n v t \<and>
             Number_NotEqual conv n v' t = Number_NotEqual conv n v t)
       \<and> (\<forall>m. Number_after_fail n m t =
             (if failed (Number_chain n) then (n, t)
              else (n\<lparr>Number_chain := (Number_chain n)\<lparr>failed := True\<rparr>\<rparr>,
                    t @ [(reporter (Number_chain n), m)])))"
proof -
  have eq: "Number_Equal conv n v t =
           (if f64_eq (Number_value n) w then (n, t)
            else Number_after_fail n (Message ''expected number == %v, but got %v''
                   [ArgFloat w, ArgFloat (Number_value n)]) t)"
    using assms by (rule Number_Equal_numeric)
  have ne: "Number_NotEqual conv n v t =
           (if \<not> f64_eq (Number_value n) w then (n, t)
            else Number_after_fail n (Message ''expected number != %v, but got %v''
                   [ArgFloat w, ArgFloat (Number_value n)]) t)"
    using assms by (simp add: Number_NotEqual_numeric f64_ne_def)
  have eq_iff: "\<not> failed (Number_chain n) \<longrightarrow>
           (Number_Equal conv n v t = (n, t)) = f64_eq (Number_value n) w"
    unfolding eq by (simp add: Number_after_fail_same)
  have ne_iff: "\<not> failed (Number_chain n) \<longrightarrow>
           (Number_NotEqual conv n v t = (n, t)) = (\<not> f64_eq (Number_value n) w)"
    unfolding ne by (simp add: Number_after_fail_same)
  have fin: "\<not> failed (Number_chain n) \<longrightarrow>
           (\<forall>p q. Number_value n = Finite p \<and> w = Finite q \<longrightarrow>
             (Number_Equal conv n v t = (n, t)) = (p = q) \<and>
             (Number_NotEqual conv n v t = (n, t)) = (p \<noteq> q))"
    using eq_iff ne_iff by simp
  have rep: "\<forall>v'. conv v' = Some w \<longrightarrow>
             Number_Equal conv n v' t = Number_Equal conv n v t \<and>
             Number_NotEqual conv n v' t = Number_NotEqual conv n v t"
    using assms by (simp add: Number_Equal_numeric Number_NotEqual_numeric)
  have af: "\<forall>m. Number_after_fail n m t =
             (if failed (Number_chain n) then (n, t)
              else (n\<lparr>Number_chain := (Number_chain n)\<lparr>failed := True\<rparr>\<rparr>,
                    t @ [(reporter (Number_chain n), m)]))"
    by (simp add: Number_after_fail_eq)
  from eq ne eq_iff ne_iff fin rep af show ?thesis by (intro conjI)
qed

text \<open>
  A run of C4: \<open>int32(123)\<close> and \<open>float64(123.0)\<close> both convert to 123, and
  \<open>Equal\<close> of either succeeds on \<open>Number(123)\<close>, where \<open>NotEqual\<close> fails.
\<close>

theorem Number_Equal_NotEqual_exact_witness:
  "go_float64 (GoInt32 123) = Some (Finite 123)
   \<and> go_float64 (GoFloat64 (Finite 123)) = Some (Finite 123)
   \<and> Number_Equal go_float64 (NewNumber (Reporter 0) (Finite 123)) (GoInt32 123) []
       = (NewNumber (Reporter 0) (Finite 123), [])
   \<and> Number_Equal go_float64 (NewNumber (Reporter 0) (Finite 123)) (GoFloat64 (Finite 123)) []
       = (NewNumber (Reporter 0) (Finite 123), [])
   \<and> Number_NotEqual go_float64 (NewNumber (Reporter 0) (Finite 123)) (GoInt32 123) []
       = (\<lparr>Number_chain = \<lparr>reporter = Reporter 0, failed = True\<rparr>, Number_value = Finite 123\<rparr>,
          [(Reporter 0, Message ''expected number != %v, but got %v''
              [ArgFloat (Finite 123), ArgFloat (Finite 123)])])"
  using Number_Equal_NotEqual_exact
      [of go_float64 "GoInt32 123" "Finite 123" "NewNumber (Reporter 0) (Finite 123)" "[]"]
  by (simp add: NewNumber_def makeChain_def)

section \<open>Gt, Ge, Lt and Le\<close>

text \<open>
  C5. With a numeric operand that converts to \<open>w\<close>, on a Number with payload
  \<open>x\<close>: the check of \<open>Gt\<close> passes if and only if \<open>x > w\<close>, of \<open>Ge\<close> if and only
  if \<open>x >= w\<close>, of \<open>Lt\<close> if and only if \<open>x < w\<close>, of \<open>Le\<close> if and only if
  \<open>x <= w\<close>, and on a violation the method fails the chain once and returns the
  receiver. On a receiver whose chain has not failed, the call returns the receiver with
  nothing reported exactly when the check passes (the orderings of the reals on finite
  values), and a violation leaves the same wrapper with its chain failed, and one report
  more.
\<close>

theorem Number_orderings:
  assumes "conv v = Some w"
  shows "Number_Gt conv n v t =
           (if f64_gt (Number_value n) w then (n, t)
            else Number_after_fail n (Message ''expected number > %v, but got %v''
                   [ArgFloat w, ArgFloat (Number_value n)]) t)
       \<and> Number_Ge conv n v t =
           (if f64_ge (Number_value n) w then (n, t)
            else Number_after_fail n (Message ''expected number >= %v, but got %v''
                   [ArgFloat w, ArgFloat (Number_value n)]) t)
       \<and> Number_Lt conv n v t =
           (if f64_lt (Number_value n) w then (n, t)
            else Number_after_fail n (Message ''expected number < %v, but got %v''
                   [ArgFloat w, ArgFloat (Number_value n)]) t)
       \<and> Number_Le conv n v t =
           (if f64_le (Number_value n) w then (n, t)
            else Number_after_fail n (Message ''expected number <= %v, but got %v''
                   [ArgFloat w, ArgFloat (Number_value n)]) t)
       \<and> (\<not> failed (Number_chain n) \<longrightarrow>
           (Number_Gt conv n v t = (n, t)) = f64_gt (Number_value n) w
         \<and> (Number_Ge conv n v t = (n, t)) = f64_ge (Number_value n) w
         \<and> (Number_Lt conv n v t = (n, t)) = f64_lt (Number_value n) w
         \<and> (Number_Le conv n v t = (n, t)) = f64_le (Number_value n) w)
       \<and> (\<not> failed (Number_chain n) \<longrightarrow>
           (\<forall>p q. Number_value n = Finite p \<and> w = Finite q \<longrightarrow>
             (Number_Gt conv n v t = (n, t)) = (p > q) \<and>
             (Number_Ge conv n v t = (n, t)) = (p \<ge> q) \<and>
             (Number_Lt conv n v t = (n, t)) = (p < q) \<and>
             (Number_Le conv n v t = (n, t)) = (p \<le> q)))
       \<and> (\<forall>m. Number_after_fail n m t =
             (if failed (Number_chain n) then (n, t)
              else (n\<lparr>Number_chain := (Number_chain n)\<lparr>failed := True\<rparr>\<rparr>,
                    t @ [(reporter (Number_chain n), m)])))"
proof -
  note num = Number_Gt_numeric [of conv v w n t, OF assms]
    Number_Ge_numeric [of conv v w n t, OF assms]
    Number_Lt_numeric [of conv v w n t, OF assms]
    Number_Le_numeric [of conv v w n t, OF assms]
  have iff: "\<not> failed (Number_chain n) \<longrightarrow>
           (Number_Gt conv n v t = (n, t)) = f64_gt (Number_value n) w
         \<and> (Number_Ge conv n v t = (n, t)) = f64_ge (Number_value n) w
         \<and> (Number_Lt conv n v t = (n, t)) = f64_lt (Number_value n) w
         \<and> (Number_Le conv n v t = (n, t)) = f64_le (Number_value n) w"
    by (simp add: num Number_after_fail_same)
  have fin: "\<not> failed (Number_chain n) \<longrightarrow>
           (\<forall>p q. Number_value n = Finite p \<and> w = Finite q \<longrightarrow>
             (Number_Gt conv n v t = (n, t)) = (p > q) \<and>
             (Number_Ge conv n v t = (n, t)) = (p \<ge> q) \<and>
             (Number_Lt conv n v t = (n, t)) = (p < q) \<and>
             (Number_Le conv n v t = (n, t)) = (p \<le> q))"
    using iff by (simp add: f64_gt_Finite f64_ge_Finite f64_le_Finite)
  have af: "\<forall>m. Number_after_fail n m t =
             (if failed (Number_chain n) then (n, t)
              else (n\<lparr>Number_chain := (Number_chain n)\<lparr>failed := True\<rparr>\<rparr>,
                    t @ [(reporter (Number_chain n), m)]))"
    by (simp add: Number_after_fail_eq)
  from num iff fin af show ?thesis by (intro conjI)
qed

text \<open>
  A run of C5 on \<open>Number(123)\<close> with the operand \<open>int32(122)\<close>: \<open>Gt\<close> and
  \<open>Ge\<close> succeed, \<open>Lt\<close> and \<open>Le\<close> fail the chain.
\<close>

theorem Number_orderings_witness:
  "go_float64 (GoInt32 122) = Some (Finite 122)
   \<and> Number_Gt go_float64 (NewNumber (Reporter 0) (Finite 123)) (GoInt32 122) []
       = (NewNumber (Reporter 0) (Finite 123), [])
   \<and> Number_Ge go_float64 (NewNumber (Reporter 0) (Finite 123)) (GoInt32 122) []
       = (NewNumber (Reporter 0) (Finite 123), [])
   \<and> Number_Lt go_float64 (NewNumber (Reporter 0) (Finite 123)) (GoInt32 122) []
       = (\<lparr>Number_chain = \<lparr>reporter = Reporter 0, failed = True\<rparr>, Number_value = Finite 123\<rparr>,
          [(Reporter 0, Message ''expected number < %v, but got %v''
              [ArgFloat (Finite 122), ArgFloat (Finite 123)])])
   \<and> Number_Le go_float64 (NewNumber (Reporter 0) (Finite 123)) (GoInt32 122) []
       = (\<lparr>Number_chain = \<lparr>reporter = Reporter 0, failed = True\<rparr>, Number_value = Finite 123\<rparr>,
          [(Reporter 0, Message ''expected number <= %v, but got %v''
              [ArgFloat (Finite 122), ArgFloat (Finite 123)])])"
  using Number_orderings
      [of go_float64 "GoInt32 122" "Finite 122" "NewNumber (Reporter 0) (Finite 123)" "[]"]
  by (simp add: NewNumber_def makeChain_def f64_gt_Finite f64_ge_Finite f64_le_Finite)

section \<open>Every method returns, right after its fail\<close>

text \<open>
  C7. Every method of Number and of Boolean returns a wrapper on every receiver, every
  operand and every trace: the methods are functions with no error result, as no path
  of the source raises. A method returns the receiver right after its \<open>fail\<close>: its
  outcome is either the receiver and the trace as they were, or the receiver and the
  trace as one \<open>fail\<close> on the receiver's chain leaves them, with nothing done after
  that \<open>fail\<close>. The wrapper returned is the receiver with its payload in both cases.
\<close>

theorem methods_return_after_fail:
  "(Number_Equal conv n v t = (n, t) \<or> (\<exists>m. Number_Equal conv n v t = Number_after_fail n m t))
 \<and> (Number_NotEqual conv n v t = (n, t) \<or>
      (\<exists>m. Number_NotEqual conv n v t = Number_after_fail n m t))
 \<and> (Number_Gt conv n v t = (n, t) \<or> (\<exists>m. Number_Gt conv n v t = Number_after_fail n m t))
 \<and> (Number_Ge conv n v t = (n, t) \<or> (\<exists>m. Number_Ge conv n v t = Number_after_fail n m t))
 \<and> (Number_Lt conv n v t = (n, t) \<or> (\<exists>m. Number_Lt conv n v t = Number_after_fail n m t))
 \<and> (Number_Le conv n v t = (n, t) \<or> (\<exists>m. Number_Le conv n v t = Number_after_fail n m t))
 \<and> (Number_InRange conv n mn mx t = (n, t) \<or>
      (\<exists>m. Number_InRange conv n mn mx t = Number_after_fail n m t))
 \<and> (Boolean_Equal b x t = (b, t) \<or> (\<exists>m. Boolean_Equal b x t = Boolean_after_fail b m t))
 \<and> (Boolean_NotEqual b x t = (b, t) \<or>
      (\<exists>m. Boolean_NotEqual b x t = Boolean_after_fail b m t))
 \<and> (Boolean_True b t = (b, t) \<or> (\<exists>m. Boolean_True b t = Boolean_after_fail b m t))
 \<and> (Boolean_False b t = (b, t) \<or> (\<exists>m. Boolean_False b t = Boolean_after_fail b m t))
 \<and> (\<forall>m. Number_after_fail n m t =
        (if failed (Number_chain n) then (n, t)
         else (n\<lparr>Number_chain := (Number_chain n)\<lparr>failed := True\<rparr>\<rparr>,
               t @ [(reporter (Number_chain n), m)])))
 \<and> (\<forall>m. Boolean_after_fail b m t =
        (if failed (Boolean_chain b) then (b, t)
         else (b\<lparr>Boolean_chain := (Boolean_chain b)\<lparr>failed := True\<rparr>\<rparr>,
               t @ [(reporter (Boolean_chain b), m)])))"
  by (intro conjI allI Number_Equal_outcome Number_NotEqual_outcome Number_Gt_outcome
      Number_Ge_outcome Number_Lt_outcome Number_Le_outcome Number_InRange_outcome
      Boolean_Equal_outcome Boolean_NotEqual_outcome Boolean_True_outcome Boolean_False_outcome
      Number_after_fail_eq Boolean_after_fail_eq)

section \<open>The payload never changes\<close>

text \<open>
  C8. After any sequence of method calls on a Number or a Boolean, succeeding or
  failing, \<open>Raw()\<close> gives what it gave before, and on a wrapper made by the
  constructor it gives the value passed to the constructor. The wrapper after the calls
  is the wrapper before them except for the \<open>failed\<close> flag of its chain.
\<close>

theorem payload_unchanged:
  "Number_Raw (fst (Number_run conv calls (n, t))) = Number_Raw n
 \<and> fst (Number_run conv calls (n, t)) =
     n\<lparr>Number_chain := (Number_chain n)
        \<lparr>failed := failed (Number_chain (fst (Number_run conv calls (n, t))))\<rparr>\<rparr>
 \<and> Number_Raw (fst (Number_run conv calls (NewNumber r x, t))) = x
 \<and> Boolean_Raw (fst (Boolean_run bcalls (b, t'))) = Boolean_Raw b
 \<and> fst (Boolean_run bcalls (b, t')) =
     b\<lparr>Boolean_chain := (Boolean_chain b)
        \<lparr>failed := failed (Boolean_chain (fst (Boolean_run bcalls (b, t'))))\<rparr>\<rparr>
 \<and> Boolean_Raw (fst (Boolean_run bcalls (NewBoolean r y, t'))) = y"
proof -
  note nk = Number_run_keeps [of conv calls n t]
  note bk = Boolean_run_keeps [of bcalls b t']
  have n1: "Number_Raw (fst (Number_run conv calls (n, t))) = Number_Raw n"
    using nk by (simp only: Number_Raw_def)
  have n2: "fst (Number_run conv calls (n, t)) =
     n\<lparr>Number_chain := (Number_chain n)
        \<lparr>failed := failed (Number_chain (fst (Number_run conv calls (n, t))))\<rparr>\<rparr>"
    using nk by (intro Number_only_failed_differs) simp_all
  have n3: "Number_Raw (fst (Number_run conv calls (NewNumber r x, t))) = x"
    using Number_run_keeps [of conv calls "NewNumber r x" t]
    by (simp add: Number_Raw_def NewNumber_def)
  have b1: "Boolean_Raw (fst (Boolean_run bcalls (b, t'))) = Boolean_Raw b"
    using bk by (simp only: Boolean_Raw_def)
  have b2: "fst (Boolean_run bcalls (b, t')) =
     b\<lparr>Boolean_chain := (Boolean_chain b)
        \<lparr>failed := failed (Boolean_chain (fst (Boolean_run bcalls (b, t'))))\<rparr>\<rparr>"
    using bk by (intro Boolean_only_failed_differs) simp_all
  have b3: "Boolean_Raw (fst (Boolean_run bcalls (NewBoolean r y, t'))) = y"
    using Boolean_run_keeps [of bcalls "NewBoolean r y" t']
    by (simp add: Boolean_Raw_def NewBoolean_def)
  from n1 n2 n3 b1 b2 b3 show ?thesis by (intro conjI)
qed

section \<open>A payload that is not a number\<close>

text \<open>
  C9. On a Number whose payload is NaN, \<open>Equal\<close> fails the chain for every numeric
  operand (NaN included, as \<open>NaN == NaN\<close> is false), \<open>NotEqual\<close> succeeds for every
  numeric operand, and \<open>InRange\<close> fails the chain for all numeric bounds.
\<close>

theorem Number_NaN_payload:
  assumes "Number_value n = NaN"
    and "conv v = Some w" and "conv mn = Some a" and "conv mx = Some b"
  shows "Number_Equal conv n v t =
           Number_after_fail n (Message ''expected number == %v, but got %v''
             [ArgFloat w, ArgFloat NaN]) t
       \<and> Number_NotEqual conv n v t = (n, t)
       \<and> Number_InRange conv n mn mx t =
           Number_after_fail n (Message ''expected number in range [%v; %v], but got %v''
             [ArgFloat a, ArgFloat b, ArgFloat NaN]) t"
  using assms
  by (simp add: Number_Equal_numeric Number_NotEqual_numeric Number_InRange_numeric
      f64_ne_def f64_ge_def f64_eq_NaN f64_le_NaN)

text \<open>
  A run of C9 on \<open>Number(NaN)\<close>: \<open>Equal(NaN)\<close> fails, \<open>NotEqual(NaN)\<close>
  succeeds, and \<open>InRange(-Inf, +Inf)\<close> fails.
\<close>

theorem Number_NaN_payload_witness:
  "Number_value (NewNumber (Reporter 0) NaN) = NaN
   \<and> go_float64 (GoFloat64 NaN) = Some NaN
   \<and> go_float64 (GoFloat64 NegInf) = Some NegInf
   \<and> go_float64 (GoFloat64 PosInf) = Some PosInf
   \<and> Number_Equal go_float64 (NewNumber (Reporter 0) NaN) (GoFloat64 NaN) []
       = (\<lparr>Number_chain = \<lparr>reporter = Reporter 0, failed = True\<rparr>, Number_value = NaN\<rparr>,
          [(Reporter 0, Message ''expected number == %v, but got %v''
              [ArgFloat NaN, ArgFloat NaN])])
   \<and> Number_NotEqual go_float64 (NewNumber (Reporter 0) NaN) (GoFloat64 NaN) []
       = (NewNumber (Reporter 0) NaN, [])
   \<and> Number_InRange go_float64 (NewNumber (Reporter 0) NaN)
         (GoFloat64 NegInf) (GoFloat64 PosInf) []
       = (\<lparr>Number_chain = \<lparr>reporter = Reporter 0, failed = True\<rparr>, Number_value = NaN\<rparr>,
          [(Reporter 0, Message ''expected number in range [%v; %v], but got %v''
              [ArgFloat NegInf, ArgFloat PosInf, ArgFloat NaN])])"
  using Number_NaN_payload
      [of "NewNumber (Reporter 0) NaN" go_float64 "GoFloat64 NaN" NaN
          "GoFloat64 NegInf" NegInf "GoFloat64 PosInf" PosInf "[]"]
  by (simp add: NewNumber_def makeChain_def Number_after_fail_eq)

section \<open>InRange converts min first\<close>

text \<open>
  C10. \<open>InRange\<close> converts \<open>min\<close> before \<open>max\<close> and returns as soon as
  \<open>min\<close> is not a number: the outcome is the receiver after the one \<open>fail\<close> about
  \<open>min\<close>, so the trace is at most one report longer (exactly one, the report about
  \<open>min\<close>, if the chain had not failed before), and the outcome is the same for every
  \<open>max\<close> and every way \<open>max\<close> would convert: \<open>max\<close> is never looked at.
\<close>

theorem Number_InRange_min_first:
  assumes "conv mn = None"
  shows "Number_InRange conv n mn mx t = Number_after_fail n (NotNumeric mn) t
       \<and> snd (Number_InRange conv n mn mx t) =
           (if failed (Number_chain n) then t
            else t @ [(reporter (Number_chain n), NotNumeric mn)])
       \<and> length (snd (Number_InRange conv n mn mx t)) \<le> Suc (length t)
       \<and> (\<not> failed (Number_chain n) \<longrightarrow>
           length (snd (Number_InRange conv n mn mx t)) = Suc (length t))
       \<and> (\<forall>conv' mx'. conv' mn = None \<longrightarrow>
             Number_InRange conv' n mn mx' t = Number_InRange conv n mn mx t)"
  using assms by (simp add: Number_InRange_min_non_numeric Number_after_fail_eq)

text \<open>
  A run of C10 with two bounds that are not numbers: one report, about \<open>min\<close>.
\<close>

theorem Number_InRange_min_first_witness:
  "go_float64 (GoString ''lo'') = None \<and> go_float64 (GoString ''hi'') = None
   \<and> Number_InRange go_float64 (NewNumber (Reporter 0) (Finite 10))
         (GoString ''lo'') (GoString ''hi'') []
       = (\<lparr>Number_chain = \<lparr>reporter = Reporter 0, failed = True\<rparr>, Number_value = Finite 10\<rparr>,
          [(Reporter 0, NotNumeric (GoString ''lo''))])"
  using Number_InRange_min_first
      [of go_float64 "GoString ''lo''" "NewNumber (Reporter 0) (Finite 10)" "GoString ''hi''" "[]"]
  by (simp add: NewNumber_def makeChain_def Number_after_fail_eq)

section \<open>Checks on a chain that has already failed\<close>

text \<open>
  C1. Once \<open>fail\<close> has been called on a chain, the chain is failed, and every later
  method call on a Number or a Boolean with a failed chain reports nothing and returns
  the receiver as it is: the check is ignored, whether it would pass or not and whether
  the operand is a number or not. So is every sequence of calls. Number and Boolean are
  the wrappers of the sources, and none of their methods makes another wrapper.
\<close>

theorem failed_chain_is_silent:
  assumes "failed (Number_chain n)" and "failed (Boolean_chain b)"
  shows "Number_Equal conv n v t = (n, t)
       \<and> Number_NotEqual conv n v t = (n, t)
       \<and> Number_Gt conv n v t = (n, t)
       \<and> Number_Ge conv n v t = (n, t)
       \<and> Number_Lt conv n v t = (n, t)
       \<and> Number_Le conv n v t = (n, t)
       \<and> Number_InRange conv n mn mx t = (n, t)
       \<and> Boolean_Equal b x t = (b, t)
       \<and> Boolean_NotEqual b x t = (b, t)
       \<and> Boolean_True b t = (b, t)
       \<and> Boolean_False b t = (b, t)
       \<and> Number_run conv calls (n, t) = (n, t)
       \<and> Boolean_run bcalls (b, t) = (b, t)
       \<and> fail (Number_chain n) m t = (Number_chain n, t)
       \<and> failed (fst (fail c m t))
       \<and> failed (Number_chain (fst (Number_after_fail n' m t)))
       \<and> failed (Boolean_chain (fst (Boolean_after_fail b' m t)))"
  using assms
  by (simp add: Number_Equal_failed Number_NotEqual_failed Number_Gt_failed Number_Ge_failed
      Number_Lt_failed Number_Le_failed Number_InRange_failed Boolean_Equal_failed
      Boolean_NotEqual_failed Boolean_True_failed Boolean_False_failed Number_run_failed
      Boolean_run_failed fail_failed failed_after_fail Number_after_fail_eq
      Boolean_after_fail_eq)

text \<open>
  A run of C1: \<open>NewNumber(r, 1).Equal(2).Equal(3)\<close> and
  \<open>NewBoolean(r, false).True().True()\<close> report once, at the first call; the second
  call is on a failed chain and changes nothing.
\<close>

theorem failed_chain_is_silent_witness:
  "Number_Equal go_float64 (NewNumber (Reporter 0) (Finite 1)) (GoInt32 2) []
     = (\<lparr>Number_chain = \<lparr>reporter = Reporter 0, failed = True\<rparr>, Number_value = Finite 1\<rparr>,
        [(Reporter 0, Message ''expected number == %v, but got %v''
            [ArgFloat (Finite 2), ArgFloat (Finite 1)])])
   \<and> Number_Equal go_float64
        \<lparr>Number_chain = \<lparr>reporter = Reporter 0, failed = True\<rparr>, Number_value = Finite 1\<rparr>
        (GoInt32 3)
        [(Reporter 0, Message ''expected number == %v, but got %v''
            [ArgFloat (Finite 2), ArgFloat (Finite 1)])]
     = (\<lparr>Number_chain = \<lparr>reporter = Reporter 0, failed = True\<rparr>, Number_value = Finite 1\<rparr>,
        [(Reporter 0, Message ''expected number == %v, but got %v''
            [ArgFloat (Finite 2), ArgFloat (Finite 1)])])
   \<and> Number_run go_float64 [Equal (GoInt32 2), Equal (GoInt32 3)]
        (NewNumber (Reporter 0) (Finite 1), [])
     = (\<lparr>Number_chain = \<lparr>reporter = Reporter 0, failed = True\<rparr>, Number_value = Finite 1\<rparr>,
        [(Reporter 0, Message ''expected number == %v, but got %v''
            [ArgFloat (Finite 2), ArgFloat (Finite 1)])])
   \<and> Boolean_run [BTrue, BTrue] (NewBoolean (Reporter 0) False, ([] :: go_value trace))
     = (\<lparr>Boolean_chain = \<lparr>reporter = Reporter 0, failed = True\<rparr>, Boolean_value = False\<rparr>,
        [(Reporter 0, Message ''expected boolean == %v, but got %v''
            [ArgBool True, ArgBool False])])"
  using failed_chain_is_silent
      [where n = "\<lparr>Number_chain = \<lparr>reporter = Reporter 0, failed = True\<rparr>,
                    Number_value = Finite 1\<rparr>"
         and b = "\<lparr>Boolean_chain = \<lparr>reporter = Reporter 0, failed = True\<rparr>,
                    Boolean_value = False\<rparr>"
         and conv = go_float64 and v = "GoInt32 3"
         and t = "[(Reporter 0, Message ''expected number == %v, but got %v''
                      [ArgFloat (Finite 2), ArgFloat (Finite 1)])]"]
  by (simp add: Number_run_def Boolean_run_def NewNumber_def NewBoolean_def makeChain_def
      Number_Equal_numeric Boolean_True_def Boolean_Equal_eq
      Number_after_fail_eq Boolean_after_fail_eq)

end
